theory Spec2Isabelle
  imports Main
begin

section \<open>Errors\<close>

text \<open>
  Modelled from the spec: the modules \<^verbatim>\<open>lib/auth-errors\<close> and
  \<^verbatim>\<open>lib/marketing-email-errors\<close> are used by the view but are not among the
  sources. The spec says that errors of the remote service are classified into a small
  fixed taxonomy. An error therefore carries the name of its class (\<open>errorKey\<close>, the
  name the view passes to \<^verbatim>\<open>AuthErrors.is\<close> and \<^verbatim>\<open>AuthErrors.toError\<close>), the
  module that created it (\<open>namespace\<close>) and whatever else the server attached to it
  (\<open>details\<close>).
\<close>

record error =
  namespace :: string
  errorKey :: string
  details :: string

text \<open>
  Modelled from the spec: \<^verbatim>\<open>AuthErrors.is(err, type)\<close> of the absent
  \<^verbatim>\<open>lib/auth-errors\<close> tells whether \<open>err\<close> is of the class named \<open>type\<close>.
\<close>

definition AuthErrors_is :: "error \<Rightarrow> string \<Rightarrow> bool" where
  "AuthErrors_is err type = (errorKey err = type)"

text \<open>
  Modelled from the spec: \<^verbatim>\<open>AuthErrors.toError(type)\<close> of the absent
  \<^verbatim>\<open>lib/auth-errors\<close> builds the error of the class named \<open>type\<close>.
\<close>

definition AuthErrors_toError :: "string \<Rightarrow> error" where
  "AuthErrors_toError type = \<lparr>namespace = ''auth'', errorKey = type, details = ''''\<rparr>"

text \<open>
  Modelled from the spec: \<^verbatim>\<open>MarketingEmailErrors.created(err)\<close> of the absent
  \<^verbatim>\<open>lib/marketing-email-errors\<close> tells whether the marketing-email (basket) client
  created \<open>err\<close>.
\<close>

definition MarketingEmailErrors_created :: "error \<Rightarrow> bool" where
  "MarketingEmailErrors_created err = (namespace err = ''basket'')"

text \<open>
  A promise is settled as resolved or as rejected with an error; a handler that returns
  resolves the promise it feeds, one that throws rejects it.
\<close>

datatype outcome = Resolved | Rejected error

section \<open>Verification info and account\<close>

text \<open>
  Modelled from the spec: the model \<^verbatim>\<open>models/verification/sign-up\<close> is not among
  the sources. Verification info is derived from the URL query parameters (code, uid,
  type, reminder, service) and has boolean validity states (valid / expired / used /
  damaged). \<open>validates\<close> is the result of validating the parameters; \<open>expired\<close>,
  \<open>used\<close> and \<open>damaged\<close> are the marks that the view sets.
\<close>

record verification_info =
  uid :: "string option"
  code :: "string option"
  vtype :: "string option"
  reminder :: "string option"
  service :: "string option"
  validates :: bool
  expired :: bool
  used :: bool
  damaged :: bool

text \<open>
  Modelled from the spec: \<^verbatim>\<open>isValid\<close> of the absent verification model, the valid
  state: the parameters validate and the link has not been marked damaged.
\<close>

definition isValid :: "verification_info \<Rightarrow> bool" where
  "isValid vi = (validates vi \<and> \<not> damaged vi)"

text \<open>
  Modelled from the spec: \<^verbatim>\<open>isExpired\<close> of the absent verification model, the
  expired state.
\<close>

definition isExpired :: "verification_info \<Rightarrow> bool" where
  "isExpired vi = expired vi"

text \<open>
  Modelled from the spec: \<^verbatim>\<open>isUsed\<close> of the absent verification model, the used
  state.
\<close>

definition isUsed :: "verification_info \<Rightarrow> bool" where
  "isUsed vi = used vi"

text \<open>
  Modelled from the spec: \<^verbatim>\<open>markExpired\<close> of the absent verification model marks
  the link expired.
\<close>

definition markExpired :: "verification_info \<Rightarrow> verification_info" where
  "markExpired vi = vi\<lparr>expired := True\<rparr>"

text \<open>
  Modelled from the spec: \<^verbatim>\<open>markUsed\<close> of the absent verification model marks the
  link used.
\<close>

definition markUsed :: "verification_info \<Rightarrow> verification_info" where
  "markUsed vi = vi\<lparr>used := True\<rparr>"

text \<open>
  Modelled from the spec: \<^verbatim>\<open>markDamaged\<close> of the absent verification model marks
  the link damaged.
\<close>

definition markDamaged :: "verification_info \<Rightarrow> verification_info" where
  "markDamaged vi = vi\<lparr>damaged := True\<rparr>"

text \<open>
  Modelled from the spec: the account model is not among the sources. An account is an
  in-memory representation of session token, email and verification flags.
\<close>

record account =
  account_uid :: "string option"
  account_email :: "string option"
  sessionToken :: "string option"
  verified :: bool

text \<open>JavaScript truthiness of a value that is undefined, null or a string.\<close>

definition truthy :: "string option \<Rightarrow> bool" where
  "truthy x = (case x of None \<Rightarrow> False | Some s \<Rightarrow> s \<noteq> [])"

text \<open>The expression \<^verbatim>\<open>x || null\<close> on such a value.\<close>

definition or_null :: "string option \<Rightarrow> string option" where
  "or_null x = (if truthy x then x else None)"

section \<open>The view \<^verbatim>\<open>complete_sign_up\<close>\<close>

text \<open>
  Modelled from the spec: \<^verbatim>\<open>views/mixins/verification-reason-mixin\<close> and the
  verification reasons it compares with are not among the sources. The view model's
  \<open>type\<close> is a verification reason; the three reasons that \<^verbatim>\<open>BROKER_METHODS\<close>
  names are constructors, every other reason is \<open>OTHER_REASON\<close>.
\<close>

datatype verification_reason = SIGN_UP | SIGN_IN | SECONDARY_EMAIL_VERIFIED | OTHER_REASON

text \<open>
  Modelled from the spec: \<^verbatim>\<open>keyOfVerificationReason\<close> of the absent mixin gives the
  key of a reason, which for \<open>OTHER_REASON\<close> is no key of \<^verbatim>\<open>BROKER_METHODS\<close>.
\<close>

fun keyOfVerificationReason :: "verification_reason \<Rightarrow> string option" where
  "keyOfVerificationReason SIGN_UP = Some ''SIGN_UP''"
| "keyOfVerificationReason SIGN_IN = Some ''SIGN_IN''"
| "keyOfVerificationReason SECONDARY_EMAIL_VERIFIED = Some ''SECONDARY_EMAIL_VERIFIED''"
| "keyOfVerificationReason OTHER_REASON = None"

text \<open>The attributes \<open>type\<close> and \<open>error\<close> of \<^verbatim>\<open>this.model\<close>.\<close>

record view_model =
  model_type :: verification_reason
  model_error :: "error option"

text \<open>The \<open>options\<close> that \<^verbatim>\<open>beforeRender\<close> gives to the remote operation.\<close>

record complete_options =
  opt_reminder :: "string option"
  opt_secondaryEmailVerified :: "string option"
  opt_serverVerificationStatus :: "string option"
  opt_service :: "string option"
  opt_type :: "string option"

text \<open>
  What the view does to its collaborators (metrics, notifier, user, account, broker) is
  recorded in the order in which it happens.
\<close>

datatype effect =
    LogError error
  | LogViewEvent string
  | NotifierTrigger string
  | PopulateFromStringifiedResumeToken "string option"
  | CompleteAccountSignUp account "string option" complete_options
  | SetAccount account
  | InvokeBrokerMethod "string option" account

text \<open>
  The view after \<^verbatim>\<open>initialize\<close>: \<^verbatim>\<open>_verificationInfo\<close>, \<^verbatim>\<open>_account\<close>,
  \<^verbatim>\<open>_email\<close>, the model, the query parameters of the link, the service of the relier,
  and the effects so far.
\<close>

record view =
  verificationInfo :: verification_info
  view_account :: account
  view_email :: "string option"
  model :: view_model
  searchParams :: "(string \<times> string) list"
  relier_service :: "string option"
  trace :: "effect list"

text \<open>
  The collaborators are opaque to the view: what they answer is a parameter.
  \<open>completeAccountSignUp\<close> may update the account it is given, and settles its promise;
  \<open>setAccount\<close> and \<open>invokeBrokerMethod\<close> settle theirs.
\<close>

record env =
  populateFromStringifiedResumeToken :: "string option \<Rightarrow> account \<Rightarrow> account"
  completeAccountSignUp :: "account \<Rightarrow> string option \<Rightarrow> complete_options \<Rightarrow> account \<times> outcome"
  setAccount :: "account \<Rightarrow> outcome"
  invokeBrokerMethod :: "string option \<Rightarrow> account \<Rightarrow> outcome"
  getAccountByEmail :: "string option \<Rightarrow> account"

text \<open>
  A promise is given with the view as it is when the promise settles.
  \<^verbatim>\<open>p.fail(h)\<close> runs \<open>h\<close> on the error of a rejected \<open>p\<close> and passes a resolved
  \<open>p\<close> on.
\<close>

definition promise_fail :: "outcome \<times> view \<Rightarrow> (error \<Rightarrow> view \<Rightarrow> outcome \<times> view) \<Rightarrow> outcome \<times> view" where
  "promise_fail p h = (case p of (Resolved, v) \<Rightarrow> (Resolved, v) | (Rejected err, v) \<Rightarrow> h err v)"

text \<open>
  \<^verbatim>\<open>p.then(f)\<close> runs \<open>f\<close> once \<open>p\<close> has resolved and passes a rejected \<open>p\<close> on.
\<close>

definition promise_then :: "outcome \<times> view \<Rightarrow> (view \<Rightarrow> outcome \<times> view) \<Rightarrow> outcome \<times> view" where
  "promise_then p f = (case p of (Resolved, v) \<Rightarrow> f v | (Rejected err, v) \<Rightarrow> (Rejected err, v))"

definition perform :: "effect \<Rightarrow> view \<Rightarrow> view" where
  "perform e v = v\<lparr>trace := trace v @ [e]\<rparr>"

text \<open>
  Modelled from the spec: \<^verbatim>\<open>logError\<close> of the absent \<^verbatim>\<open>views/base\<close> logs the
  error.
\<close>

definition logError :: "error \<Rightarrow> view \<Rightarrow> view" where
  "logError err v = perform (LogError err) v"

text \<open>
  Modelled from the spec: \<^verbatim>\<open>getSearchParam\<close> of the absent \<^verbatim>\<open>views/base\<close> reads
  a query parameter of the link.
\<close>

definition getSearchParam :: "view \<Rightarrow> string \<Rightarrow> string option" where
  "getSearchParam v name = map_of (searchParams v) name"

definition getAccount :: "view \<Rightarrow> account" where
  "getAccount v = view_account v"

text \<open>
  Modelled from the spec: \<^verbatim>\<open>isSignIn\<close> of the absent mixin tells whether the
  verification reason is sign-in.
\<close>

definition isSignIn :: "view \<Rightarrow> bool" where
  "isSignIn v = (model_type (model v) = SIGN_IN)"

text \<open>
  Modelled from the spec: \<^verbatim>\<open>isSignUp\<close> of the absent mixin tells whether the
  verification reason is sign-up.
\<close>

definition isSignUp :: "view \<Rightarrow> bool" where
  "isSignUp v = (model_type (model v) = SIGN_UP)"

text \<open>The table \<^verbatim>\<open>BROKER_METHODS\<close> of the view (source lines 233 to 237).\<close>

definition BROKER_METHODS :: "string \<Rightarrow> string option" where
  "BROKER_METHODS = map_of
     [(''SECONDARY_EMAIL_VERIFIED'', ''afterCompleteAddSecondaryEmail''),
      (''SIGN_IN'', ''afterCompleteSignIn''),
      (''SIGN_UP'', ''afterCompleteSignUp'')]"

text \<open>\<^verbatim>\<open>_getBrokerMethod\<close> (source lines 142 to 145).\<close>

definition getBrokerMethod :: "view \<Rightarrow> string option" where
  "getBrokerMethod v =
     (case keyOfVerificationReason (model_type (model v)) of
        None \<Rightarrow> None
      | Some methodKey \<Rightarrow> BROKER_METHODS methodKey)"

text \<open>
  \<^verbatim>\<open>_logAndAbsorbMarketingClientErrors\<close> (source lines 109 to 119): it returns
  (\<open>Resolved\<close>) or throws (\<open>Rejected\<close>).
\<close>

definition logAndAbsorbMarketingClientErrors :: "error \<Rightarrow> view \<Rightarrow> outcome \<times> view" where
  "logAndAbsorbMarketingClientErrors err v =
     (if MarketingEmailErrors_created err then (Resolved, logError err v)
      else (Rejected err, v))"

text \<open>\<^verbatim>\<open>_notifyBrokerAndComplete\<close> (source lines 129 to 140).\<close>

definition notifyBrokerAndComplete :: "env \<Rightarrow> account \<Rightarrow> view \<Rightarrow> outcome \<times> view" where
  "notifyBrokerAndComplete e acct v =
     (let v1 = perform (LogViewEvent ''verification.success'') v;
          v2 = perform (NotifierTrigger ''verification.success'') v1
      in promise_then (setAccount e acct, perform (SetAccount acct) v2)
           (\<lambda>s. let brokerMethod = getBrokerMethod s
                in (invokeBrokerMethod e brokerMethod acct,
                    perform (InvokeBrokerMethod brokerMethod acct) s)))"

text \<open>\<^verbatim>\<open>_handleVerificationErrors\<close> (source lines 153 to 182).\<close>

definition handleVerificationErrors :: "error \<Rightarrow> view \<Rightarrow> view" where
  "handleVerificationErrors err v =
     (if AuthErrors_is err ''UNKNOWN_ACCOUNT'' then
        logError (AuthErrors_toError ''UNKNOWN_ACCOUNT_VERIFICATION'')
          (v\<lparr>verificationInfo := markExpired (verificationInfo v)\<rparr>)
      else if AuthErrors_is err ''INVALID_VERIFICATION_CODE'' \<or>
              AuthErrors_is err ''INVALID_PARAMETER'' then
        (if isSignIn v then
           logError (AuthErrors_toError ''REUSED_SIGNIN_VERIFICATION_CODE'')
             (v\<lparr>verificationInfo := markUsed (verificationInfo v)\<rparr>)
         else
           logError (AuthErrors_toError ''DAMAGED_VERIFICATION_LINK'')
             (v\<lparr>verificationInfo := markDamaged (verificationInfo v)\<rparr>))
      else
        logError err (v\<lparr>model := (model v)\<lparr>model_error := Some err\<rparr>\<rparr>))"

datatype before_render_result = ReturnsTrue | ReturnsPromise outcome

text \<open>
  The account is an object that the view and the user model share: the view sees what
  \<^verbatim>\<open>populateFromStringifiedResumeToken\<close> and \<^verbatim>\<open>completeAccountSignUp\<close> do to it.
\<close>

definition populateAccount :: "env \<Rightarrow> view \<Rightarrow> view" where
  "populateAccount e v =
     (let account = getAccount v;
          resume = getSearchParam v ''resume''
      in perform (PopulateFromStringifiedResumeToken resume)
           (v\<lparr>view_account := populateFromStringifiedResumeToken e resume account\<rparr>))"

text \<open>The object \<open>options\<close> of \<^verbatim>\<open>beforeRender\<close> (source lines 76 to 82).\<close>

definition signUpOptions :: "view \<Rightarrow> complete_options" where
  "signUpOptions v =
     \<lparr>opt_reminder = reminder (verificationInfo v),
      opt_secondaryEmailVerified = or_null (getSearchParam v ''secondary_email_verified''),
      opt_serverVerificationStatus = or_null (getSearchParam v ''server_verification''),
      opt_service = or_null (relier_service v),
      opt_type = vtype (verificationInfo v)\<rparr>"

text \<open>
  The call of \<^verbatim>\<open>user.completeAccountSignUp\<close> (source lines 75 to 84), with the
  promise it returns.
\<close>

definition requestCompleteSignUp :: "env \<Rightarrow> view \<Rightarrow> outcome \<times> view" where
  "requestCompleteSignUp e v =
     (let account = getAccount v;
          code = code (verificationInfo v);
          options = signUpOptions v;
          (account', settled) = completeAccountSignUp e account code options
      in (settled, perform (CompleteAccountSignUp account code options)
                     (v\<lparr>view_account := account'\<rparr>)))"

text \<open>\<^verbatim>\<open>beforeRender\<close> (source lines 61 to 88).\<close>

definition beforeRender :: "env \<Rightarrow> view \<Rightarrow> before_render_result \<times> view" where
  "beforeRender e v =
     (if \<not> isValid (verificationInfo v) then
        (ReturnsTrue, logError (AuthErrors_toError ''DAMAGED_VERIFICATION_LINK'') v)
      else
        let p0 = requestCompleteSignUp e (populateAccount e v);
            p1 = promise_fail p0 logAndAbsorbMarketingClientErrors;
            p2 = promise_then p1 (\<lambda>s. notifyBrokerAndComplete e (getAccount s) s);
            p3 = promise_fail p2 (\<lambda>err s. (Resolved, handleVerificationErrors err s))
        in (ReturnsPromise (fst p3), snd p3))"

text \<open>\<^verbatim>\<open>_hasResendSessionToken\<close> (source lines 206 to 208).\<close>

definition hasResendSessionToken :: "env \<Rightarrow> view \<Rightarrow> bool" where
  "hasResendSessionToken e v = truthy (sessionToken (getAccountByEmail e (view_email v)))"

text \<open>\<^verbatim>\<open>_canResend\<close> (source lines 191 to 195).\<close>

definition canResend :: "env \<Rightarrow> view \<Rightarrow> bool" where
  "canResend e v = (hasResendSessionToken e v \<and> isSignUp v)"

text \<open>The object that \<^verbatim>\<open>context\<close> returns (source lines 90 to 100).\<close>

record template_context =
  ctx_canResend :: bool
  ctx_error :: "error option"
  ctx_isLinkDamaged :: bool
  ctx_isLinkExpired :: bool
  ctx_isLinkUsed :: bool

definition context' :: "env \<Rightarrow> view \<Rightarrow> template_context" where
  "context' e v =
     \<lparr>ctx_canResend = canResend e v,
      ctx_error = model_error (model v),
      ctx_isLinkDamaged = (\<not> isValid (verificationInfo v)),
      ctx_isLinkExpired = isExpired (verificationInfo v),
      ctx_isLinkUsed = isUsed (verificationInfo v)\<rparr>"

text \<open>The broker methods invoked so far, oldest first, each with the account it was given.\<close>

fun brokerCalls :: "effect list \<Rightarrow> (string option \<times> account) list" where
  "brokerCalls [] = []"
| "brokerCalls (InvokeBrokerMethod m a # es) = (m, a) # brokerCalls es"
| "brokerCalls (_ # es) = brokerCalls es"

section \<open>The channel sender \<^verbatim>\<open>FxDesktopV1Sender\<close>\<close>

text \<open>
  A window is known by the events dispatched on it, oldest first. \<open>'d\<close> is the type
  of the data of a command. \<^verbatim>\<open>new win.CustomEvent(type, init)\<close> makes the event of
  that type whose \<open>detail\<close> is the \<open>detail\<close> of \<open>init\<close>.
\<close>

record 'd command_detail =
  bubbles :: bool
  command :: string
  data :: 'd

record 'd custom_event =
  event_type :: string
  detail :: "'d command_detail"

record 'd window =
  dispatched :: "'d custom_event list"

record 'd sender_options =
  opt_window :: "'d window option"

record 'd sender =
  sender_window :: "'d window option"

datatype js_exception = TypeError

definition initialize :: "'d sender_options option \<Rightarrow> 'd sender \<Rightarrow> 'd sender" where
  "initialize options s =
     s\<lparr>sender_window := (case options of None \<Rightarrow> None | Some opts \<Rightarrow> opt_window opts)\<rparr>"

definition createEvent :: "'d window \<Rightarrow> string \<Rightarrow> 'd \<Rightarrow> 'd custom_event" where
  "createEvent win cmd dat =
     \<lparr>event_type = ''FirefoxAccountsCommand'',
      detail = \<lparr>bubbles = True, command = cmd, data = dat\<rparr>\<rparr>"

definition dispatchEvent :: "'d custom_event \<Rightarrow> 'd window \<Rightarrow> 'd window" where
  "dispatchEvent ev win = win\<lparr>dispatched := dispatched win @ [ev]\<rparr>"

text \<open>
  Reading \<^verbatim>\<open>win.CustomEvent\<close> throws when the sender has no window. The fourth
  argument that \<^verbatim>\<open>dispatchCommand\<close> passes to \<^verbatim>\<open>createEvent\<close> has no parameter
  there.
\<close>

definition dispatchCommand :: "'d sender \<Rightarrow> string \<Rightarrow> 'd \<Rightarrow> 'm \<Rightarrow> js_exception + 'd sender" where
  "dispatchCommand s cmd dat messageId =
     (case sender_window s of
        None \<Rightarrow> Inl TypeError
      | Some win \<Rightarrow>
          let event = createEvent win cmd dat
          in Inr (s\<lparr>sender_window := Some (dispatchEvent event win)\<rparr>))"

text \<open>
  \<^verbatim>\<open>send\<close> returns the promise of \<^verbatim>\<open>dispatchCommand\<close>: rejected (\<open>Inl\<close>) when it
  throws, resolved (\<open>Inr\<close>) otherwise.
\<close>

definition send :: "'d sender \<Rightarrow> string \<Rightarrow> 'd \<Rightarrow> 'm \<Rightarrow> js_exception + 'd sender" where
  "send s cmd dat messageId = dispatchCommand s cmd dat messageId"

section \<open>Sample values\<close>

definition sample_account :: account where
  "sample_account =
     \<lparr>account_uid = Some ''uid1'', account_email = Some ''a@a.com'',
      sessionToken = Some ''token1'', verified = False\<rparr>"

definition default_account :: account where
  "default_account =
     \<lparr>account_uid = None, account_email = None, sessionToken = None, verified = False\<rparr>"

definition sample_info :: verification_info where
  "sample_info =
     \<lparr>uid = Some ''uid1'', code = Some ''code1'', vtype = None, reminder = None,
      service = None, validates = True, expired = False, used = False, damaged = False\<rparr>"

definition sample_view :: "verification_reason \<Rightarrow> view" where
  "sample_view r =
     \<lparr>verificationInfo = sample_info, view_account = sample_account,
      view_email = Some ''a@a.com'',
      model = \<lparr>model_type = r, model_error = None\<rparr>,
      searchParams = [(''uid'', ''uid1''), (''code'', ''code1'')],
      relier_service = None, trace = []\<rparr>"

definition sample_error :: "string \<Rightarrow> string \<Rightarrow> error" where
  "sample_error ns k = \<lparr>namespace = ns, errorKey = k, details = ''from the server''\<rparr>"

text \<open>
  Collaborators whose remote call settles as given and marks the account verified, whose
  user model and broker resolve, and whose user model knows \<open>sample_account\<close>.
\<close>

definition sample_env :: "outcome \<Rightarrow> env" where
  "sample_env settled =
     \<lparr>populateFromStringifiedResumeToken = (\<lambda>resume a. a),
      completeAccountSignUp = (\<lambda>a c opts. (a\<lparr>verified := True\<rparr>, settled)),
      setAccount = (\<lambda>a. Resolved),
      invokeBrokerMethod = (\<lambda>m a. Resolved),
      getAccountByEmail =
        (\<lambda>em. if em = Some ''a@a.com'' then sample_account else default_account)\<rparr>"

definition sample_window :: "nat window" where
  "sample_window = \<lparr>dispatched = []\<rparr>"

text \<open>
  Collaborators like \<open>sample_env\<close>, except that the user model rejects
  \<^verbatim>\<open>setAccount\<close>.
\<close>

definition sample_env_rejecting :: "outcome \<Rightarrow> env" where
  "sample_env_rejecting settled =
     (sample_env settled)
       \<lparr>setAccount := (\<lambda>a. Rejected (sample_error ''auth'' ''UNEXPECTED_ERROR''))\<rparr>"

text \<open>
  The view \<open>sample_view r\<close> once \<open>sample_env\<close> has answered the remote call.
\<close>

definition sample_options :: complete_options where
  "sample_options =
     \<lparr>opt_reminder = None, opt_secondaryEmailVerified = None,
      opt_serverVerificationStatus = None, opt_service = None, opt_type = None\<rparr>"

definition sample_requested :: "verification_reason \<Rightarrow> view" where
  "sample_requested r =
     (sample_view r)
       \<lparr>view_account := sample_account\<lparr>verified := True\<rparr>,
        trace := [PopulateFromStringifiedResumeToken None,
                  CompleteAccountSignUp sample_account (Some ''code1'') sample_options]\<rparr>"

section \<open>Facts about the trace\<close>

lemma brokerCalls_append: "brokerCalls (xs @ ys) = brokerCalls xs @ brokerCalls ys"
  by (induction xs rule: brokerCalls.induct) simp_all

lemma handleVerificationErrors_trace:
  "\<exists>logged. trace (handleVerificationErrors err v) = trace v @ [LogError logged]"
  by (simp add: handleVerificationErrors_def logError_def perform_def)

lemma handleVerificationErrors_brokerCalls:
  "brokerCalls (trace (handleVerificationErrors err v)) = brokerCalls (trace v)"
proof -
  obtain logged where "trace (handleVerificationErrors err v) = trace v @ [LogError logged]"
    using handleVerificationErrors_trace by blast
  then show ?thesis by (simp add: brokerCalls_append)
qed

lemma requestCompleteSignUp_view:
  assumes "requestCompleteSignUp e (populateAccount e v) = (settled, s)"
  shows "model s = model v" and "verificationInfo s = verificationInfo v"
    and "brokerCalls (trace s) = brokerCalls (trace v)"
    and "getBrokerMethod s = getBrokerMethod v"
  using assms
  by (auto simp: requestCompleteSignUp_def populateAccount_def perform_def Let_def
      getBrokerMethod_def brokerCalls_append split: prod.splits)

lemma beforeRender_resolved:
  assumes "isValid (verificationInfo v)"
    and "requestCompleteSignUp e (populateAccount e v) = (Resolved, s)"
  shows "beforeRender e v =
     (let p = notifyBrokerAndComplete e (getAccount s) s;
          p' = promise_fail p (\<lambda>err s. (Resolved, handleVerificationErrors err s))
      in (ReturnsPromise (fst p'), snd p'))"
  using assms by (simp add: beforeRender_def promise_fail_def promise_then_def Let_def)

lemma beforeRender_absorbed:
  assumes "isValid (verificationInfo v)"
    and "requestCompleteSignUp e (populateAccount e v) = (Rejected err, s)"
    and "MarketingEmailErrors_created err"
  shows "beforeRender e v =
     (let p = notifyBrokerAndComplete e (getAccount s) (logError err s);
          p' = promise_fail p (\<lambda>err s. (Resolved, handleVerificationErrors err s))
      in (ReturnsPromise (fst p'), snd p'))"
  using assms
  by (simp add: beforeRender_def promise_fail_def promise_then_def Let_def
      logAndAbsorbMarketingClientErrors_def logError_def perform_def getAccount_def)

text \<open>
  What \<^verbatim>\<open>_notifyBrokerAndComplete\<close>, followed by the last \<^verbatim>\<open>fail\<close> handler of
  \<^verbatim>\<open>beforeRender\<close>, leaves behind.
\<close>

lemma notify_then_handle_trace:
  "\<exists>rest. trace (snd (promise_fail (notifyBrokerAndComplete e a s)
                        (\<lambda>err s. (Resolved, handleVerificationErrors err s))))
      = trace s @ [LogViewEvent ''verification.success'',
                   NotifierTrigger ''verification.success'', SetAccount a] @ rest"
proof (cases "setAccount e a")
  case Resolved
  show ?thesis
  proof (cases "invokeBrokerMethod e (getBrokerMethod s) a")
    case Resolved
    with \<open>setAccount e a = Resolved\<close> show ?thesis
      by (simp add: notifyBrokerAndComplete_def promise_fail_def promise_then_def Let_def
          perform_def getBrokerMethod_def)
  next
    case (Rejected x)
    obtain logged where
      "trace (handleVerificationErrors x
         (s\<lparr>trace := trace s @ [LogViewEvent ''verification.success'',
              NotifierTrigger ''verification.success'', SetAccount a,
              InvokeBrokerMethod (getBrokerMethod s) a]\<rparr>))
       = trace s @ [LogViewEvent ''verification.success'',
              NotifierTrigger ''verification.success'', SetAccount a,
              InvokeBrokerMethod (getBrokerMethod s) a] @ [LogError logged]"
      using handleVerificationErrors_trace
        [of x "s\<lparr>trace := trace s @ [LogViewEvent ''verification.success'',
              NotifierTrigger ''verification.success'', SetAccount a,
              InvokeBrokerMethod (getBrokerMethod s) a]\<rparr>"]
      by auto
    with Rejected \<open>setAccount e a = Resolved\<close> show ?thesis
      by (simp add: notifyBrokerAndComplete_def promise_fail_def promise_then_def Let_def
          perform_def getBrokerMethod_def)
  qed
next
  case (Rejected x)
  obtain logged where
    "trace (handleVerificationErrors x
       (s\<lparr>trace := trace s @ [LogViewEvent ''verification.success'',
            NotifierTrigger ''verification.success'', SetAccount a]\<rparr>))
     = trace s @ [LogViewEvent ''verification.success'',
            NotifierTrigger ''verification.success'', SetAccount a] @ [LogError logged]"
    using handleVerificationErrors_trace
      [of x "s\<lparr>trace := trace s @ [LogViewEvent ''verification.success'',
            NotifierTrigger ''verification.success'', SetAccount a]\<rparr>"]
    by auto
  with Rejected show ?thesis
    by (simp add: notifyBrokerAndComplete_def promise_fail_def promise_then_def Let_def
        perform_def)
qed

lemma notify_then_handle_brokerCalls:
  assumes "setAccount e a = Resolved"
  shows "brokerCalls (trace (snd (promise_fail (notifyBrokerAndComplete e a s)
                        (\<lambda>err s. (Resolved, handleVerificationErrors err s)))))
      = brokerCalls (trace s) @ [(getBrokerMethod s, a)]"
proof (cases "invokeBrokerMethod e (getBrokerMethod s) a")
  case Resolved
  with assms show ?thesis
    by (simp add: notifyBrokerAndComplete_def promise_fail_def promise_then_def Let_def
        perform_def getBrokerMethod_def brokerCalls_append)
next
  case (Rejected x)
  with assms show ?thesis
    by (simp add: notifyBrokerAndComplete_def promise_fail_def promise_then_def Let_def
        perform_def getBrokerMethod_def brokerCalls_append handleVerificationErrors_brokerCalls)
qed

lemma notify_resolved:
  assumes "setAccount e a = Resolved"
    and "invokeBrokerMethod e (getBrokerMethod s) a = Resolved"
  shows "promise_fail (notifyBrokerAndComplete e a s)
           (\<lambda>err s. (Resolved, handleVerificationErrors err s))
       = (Resolved, s\<lparr>trace := trace s @ [LogViewEvent ''verification.success'',
            NotifierTrigger ''verification.success'', SetAccount a,
            InvokeBrokerMethod (getBrokerMethod s) a]\<rparr>)"
  using assms
  by (simp add: notifyBrokerAndComplete_def promise_fail_def promise_then_def Let_def
      perform_def getBrokerMethod_def)

text \<open>The sample view is valid, and the sample collaborators answer its remote call as told.\<close>

lemma sample_request:
  "requestCompleteSignUp (sample_env settled) (populateAccount (sample_env settled) (sample_view r))
     = (settled, sample_requested r)"
  by (simp add: requestCompleteSignUp_def populateAccount_def sample_env_def sample_view_def
      sample_requested_def sample_options_def signUpOptions_def getSearchParam_def
      getAccount_def perform_def or_null_def truthy_def sample_info_def Let_def)

lemma sample_valid: "isValid (verificationInfo (sample_view r))"
  by (simp add: isValid_def sample_view_def sample_info_def)

section \<open>Decision table of \<^verbatim>\<open>_handleVerificationErrors\<close>\<close>

text \<open>
  C1. When the error is the UNKNOWN_ACCOUNT auth error, the verification info is marked
  expired, so that \<open>isExpired\<close> holds afterwards, and the one error that is logged is
  the UNKNOWN_ACCOUNT_VERIFICATION error, which is not the error that came in. The
  model's \<open>error\<close> is left as it was.
\<close>

theorem handleVerificationErrors_unknown_account:
  assumes "AuthErrors_is err ''UNKNOWN_ACCOUNT''"
  shows "verificationInfo (handleVerificationErrors err v) = markExpired (verificationInfo v)
       \<and> isExpired (verificationInfo (handleVerificationErrors err v))
       \<and> trace (handleVerificationErrors err v)
           = trace v @ [LogError (AuthErrors_toError ''UNKNOWN_ACCOUNT_VERIFICATION'')]
       \<and> AuthErrors_toError ''UNKNOWN_ACCOUNT_VERIFICATION'' \<noteq> err
       \<and> model (handleVerificationErrors err v) = model v"
  using assms
  by (auto simp: handleVerificationErrors_def logError_def perform_def markExpired_def
      isExpired_def AuthErrors_is_def AuthErrors_toError_def)

theorem handleVerificationErrors_unknown_account_witness:
  "AuthErrors_is (sample_error ''auth'' ''UNKNOWN_ACCOUNT'') ''UNKNOWN_ACCOUNT''
   \<and> \<not> isExpired (verificationInfo (sample_view SIGN_UP))
   \<and> isExpired (verificationInfo
        (handleVerificationErrors (sample_error ''auth'' ''UNKNOWN_ACCOUNT'') (sample_view SIGN_UP)))
   \<and> trace (handleVerificationErrors (sample_error ''auth'' ''UNKNOWN_ACCOUNT'') (sample_view SIGN_UP))
       = [LogError (AuthErrors_toError ''UNKNOWN_ACCOUNT_VERIFICATION'')]"
  using handleVerificationErrors_unknown_account
          [of "sample_error ''auth'' ''UNKNOWN_ACCOUNT''" "sample_view SIGN_UP"]
  by (simp add: AuthErrors_is_def sample_error_def sample_view_def sample_info_def
      isExpired_def markExpired_def)

text \<open>
  C2. When the error is INVALID_VERIFICATION_CODE or INVALID_PARAMETER and the flow is a
  sign-in, the verification info is marked used, so that \<open>isUsed\<close> holds afterwards,
  and the one error that is logged is the REUSED_SIGNIN_VERIFICATION_CODE error. The
  model's \<open>error\<close> is left as it was.
\<close>

theorem handleVerificationErrors_reused_signin_code:
  assumes "AuthErrors_is err ''INVALID_VERIFICATION_CODE'' \<or> AuthErrors_is err ''INVALID_PARAMETER''"
    and "isSignIn v"
  shows "verificationInfo (handleVerificationErrors err v) = markUsed (verificationInfo v)
       \<and> isUsed (verificationInfo (handleVerificationErrors err v))
       \<and> trace (handleVerificationErrors err v)
           = trace v @ [LogError (AuthErrors_toError ''REUSED_SIGNIN_VERIFICATION_CODE'')]
       \<and> model (handleVerificationErrors err v) = model v"
  using assms
  by (auto simp: handleVerificationErrors_def logError_def perform_def markUsed_def
      isUsed_def isSignIn_def AuthErrors_is_def)

theorem handleVerificationErrors_reused_signin_code_witness:
  "(AuthErrors_is (sample_error ''auth'' ''INVALID_PARAMETER'') ''INVALID_VERIFICATION_CODE''
      \<or> AuthErrors_is (sample_error ''auth'' ''INVALID_PARAMETER'') ''INVALID_PARAMETER'')
   \<and> isSignIn (sample_view SIGN_IN)
   \<and> \<not> isUsed (verificationInfo (sample_view SIGN_IN))
   \<and> isUsed (verificationInfo
        (handleVerificationErrors (sample_error ''auth'' ''INVALID_PARAMETER'') (sample_view SIGN_IN)))
   \<and> trace (handleVerificationErrors (sample_error ''auth'' ''INVALID_PARAMETER'') (sample_view SIGN_IN))
       = [LogError (AuthErrors_toError ''REUSED_SIGNIN_VERIFICATION_CODE'')]"
  using handleVerificationErrors_reused_signin_code
          [of "sample_error ''auth'' ''INVALID_PARAMETER''" "sample_view SIGN_IN"]
  by (simp add: AuthErrors_is_def sample_error_def sample_view_def sample_info_def
      isUsed_def markUsed_def isSignIn_def)

text \<open>
  C3. When the error is INVALID_VERIFICATION_CODE or INVALID_PARAMETER and the flow is
  not a sign-in, the verification info is marked damaged, so that \<open>isValid\<close> fails
  afterwards and the rendering context has \<open>isLinkDamaged\<close>, and the one error that is
  logged is the DAMAGED_VERIFICATION_LINK error. The model's \<open>error\<close> is left as it
  was.
\<close>

theorem handleVerificationErrors_damaged_link:
  assumes "AuthErrors_is err ''INVALID_VERIFICATION_CODE'' \<or> AuthErrors_is err ''INVALID_PARAMETER''"
    and "\<not> isSignIn v"
  shows "verificationInfo (handleVerificationErrors err v) = markDamaged (verificationInfo v)
       \<and> \<not> isValid (verificationInfo (handleVerificationErrors err v))
       \<and> ctx_isLinkDamaged (context' e (handleVerificationErrors err v))
       \<and> trace (handleVerificationErrors err v)
           = trace v @ [LogError (AuthErrors_toError ''DAMAGED_VERIFICATION_LINK'')]
       \<and> model (handleVerificationErrors err v) = model v"
  using assms
  by (auto simp: handleVerificationErrors_def logError_def perform_def markDamaged_def
      isValid_def context'_def isSignIn_def AuthErrors_is_def)

theorem handleVerificationErrors_damaged_link_witness:
  "(AuthErrors_is (sample_error ''auth'' ''INVALID_VERIFICATION_CODE'') ''INVALID_VERIFICATION_CODE''
      \<or> AuthErrors_is (sample_error ''auth'' ''INVALID_VERIFICATION_CODE'') ''INVALID_PARAMETER'')
   \<and> \<not> isSignIn (sample_view SIGN_UP)
   \<and> isValid (verificationInfo (sample_view SIGN_UP))
   \<and> \<not> isValid (verificationInfo
        (handleVerificationErrors (sample_error ''auth'' ''INVALID_VERIFICATION_CODE'') (sample_view SIGN_UP)))
   \<and> trace (handleVerificationErrors (sample_error ''auth'' ''INVALID_VERIFICATION_CODE'') (sample_view SIGN_UP))
       = [LogError (AuthErrors_toError ''DAMAGED_VERIFICATION_LINK'')]"
  using handleVerificationErrors_damaged_link
          [of "sample_error ''auth'' ''INVALID_VERIFICATION_CODE''" "sample_view SIGN_UP"]
  by (simp add: AuthErrors_is_def sample_error_def sample_view_def sample_info_def
      isValid_def markDamaged_def isSignIn_def)

text \<open>
  C5. An error that is none of UNKNOWN_ACCOUNT, INVALID_VERIFICATION_CODE and
  INVALID_PARAMETER is stored as it is as the model's \<open>error\<close> and is the one error
  that is logged; the verification info, and with it the expired, used and damaged states,
  is left as it was.
\<close>

theorem handleVerificationErrors_other_error:
  assumes "\<not> AuthErrors_is err ''UNKNOWN_ACCOUNT''"
    and "\<not> AuthErrors_is err ''INVALID_VERIFICATION_CODE''"
    and "\<not> AuthErrors_is err ''INVALID_PARAMETER''"
  shows "model_error (model (handleVerificationErrors err v)) = Some err
       \<and> ctx_error (context' e (handleVerificationErrors err v)) = Some err
       \<and> verificationInfo (handleVerificationErrors err v) = verificationInfo v
       \<and> isExpired (verificationInfo (handleVerificationErrors err v)) = isExpired (verificationInfo v)
       \<and> isUsed (verificationInfo (handleVerificationErrors err v)) = isUsed (verificationInfo v)
       \<and> isValid (verificationInfo (handleVerificationErrors err v)) = isValid (verificationInfo v)
       \<and> trace (handleVerificationErrors err v) = trace v @ [LogError err]"
  using assms
  by (simp add: handleVerificationErrors_def logError_def perform_def context'_def)

theorem handleVerificationErrors_other_error_witness:
  "\<not> AuthErrors_is (sample_error ''auth'' ''UNEXPECTED_ERROR'') ''UNKNOWN_ACCOUNT''
   \<and> \<not> AuthErrors_is (sample_error ''auth'' ''UNEXPECTED_ERROR'') ''INVALID_VERIFICATION_CODE''
   \<and> \<not> AuthErrors_is (sample_error ''auth'' ''UNEXPECTED_ERROR'') ''INVALID_PARAMETER''
   \<and> model_error (model (handleVerificationErrors (sample_error ''auth'' ''UNEXPECTED_ERROR'') (sample_view SIGN_UP)))
       = Some (sample_error ''auth'' ''UNEXPECTED_ERROR'')
   \<and> verificationInfo (handleVerificationErrors (sample_error ''auth'' ''UNEXPECTED_ERROR'') (sample_view SIGN_UP))
       = sample_info"
  using handleVerificationErrors_other_error
          [of "sample_error ''auth'' ''UNEXPECTED_ERROR''" "sample_view SIGN_UP"]
  by (simp add: AuthErrors_is_def sample_error_def sample_view_def)

section \<open>The flow of \<^verbatim>\<open>beforeRender\<close>\<close>

text \<open>
  C9. When the verification info is not valid, \<^verbatim>\<open>beforeRender\<close> returns \<open>true\<close>
  at once. All it does is log the DAMAGED_VERIFICATION_LINK error: the remote operation is
  not called, the account is not populated from the resume token, the broker is not
  notified. The context rendered afterwards has \<open>isLinkDamaged\<close>.
\<close>

theorem beforeRender_invalid_link:
  assumes "\<not> isValid (verificationInfo v)"
  shows "fst (beforeRender e v) = ReturnsTrue
       \<and> trace (snd (beforeRender e v))
           = trace v @ [LogError (AuthErrors_toError ''DAMAGED_VERIFICATION_LINK'')]
       \<and> snd (beforeRender e v) = logError (AuthErrors_toError ''DAMAGED_VERIFICATION_LINK'') v
       \<and> view_account (snd (beforeRender e v)) = view_account v
       \<and> brokerCalls (trace (snd (beforeRender e v))) = brokerCalls (trace v)
       \<and> ctx_isLinkDamaged (context' e (snd (beforeRender e v)))"
  using assms
  by (simp add: beforeRender_def logError_def perform_def context'_def brokerCalls_append)

theorem beforeRender_invalid_link_witness:
  "\<not> isValid (verificationInfo ((sample_view SIGN_UP)\<lparr>verificationInfo := sample_info\<lparr>validates := False\<rparr>\<rparr>))
   \<and> beforeRender (sample_env Resolved)
        ((sample_view SIGN_UP)\<lparr>verificationInfo := sample_info\<lparr>validates := False\<rparr>\<rparr>)
       = (ReturnsTrue,
          (sample_view SIGN_UP)
            \<lparr>verificationInfo := sample_info\<lparr>validates := False\<rparr>,
             trace := [LogError (AuthErrors_toError ''DAMAGED_VERIFICATION_LINK'')]\<rparr>)"
  using beforeRender_invalid_link
          [of "(sample_view SIGN_UP)\<lparr>verificationInfo := sample_info\<lparr>validates := False\<rparr>\<rparr>"
              "sample_env Resolved"]
  by (simp add: isValid_def sample_info_def sample_view_def logError_def perform_def prod_eq_iff)

text \<open>
  C4, as stated, is false: absorbing the error of the marketing-email client does not by
  itself mean that the broker is notified and that no error is displayed. Here the remote
  operation fails with such an error and the user model then rejects
  \<^verbatim>\<open>setAccount\<close>: the error is absorbed and completion is entered, but no broker
  method is invoked and the error of \<^verbatim>\<open>setAccount\<close> becomes the model's \<open>error\<close>,
  which the context shows.
\<close>

theorem logAndAbsorbMarketingClientErrors_counterexample:
  "isValid (verificationInfo (sample_view SIGN_UP))
   \<and> requestCompleteSignUp (sample_env_rejecting (Rejected (sample_error ''basket'' ''USAGE_ERROR'')))
        (populateAccount (sample_env_rejecting (Rejected (sample_error ''basket'' ''USAGE_ERROR'')))
           (sample_view SIGN_UP))
       = (Rejected (sample_error ''basket'' ''USAGE_ERROR''), sample_requested SIGN_UP)
   \<and> MarketingEmailErrors_created (sample_error ''basket'' ''USAGE_ERROR'')
   \<and> trace (snd (beforeRender (sample_env_rejecting (Rejected (sample_error ''basket'' ''USAGE_ERROR'')))
                   (sample_view SIGN_UP)))
       = [PopulateFromStringifiedResumeToken None,
          CompleteAccountSignUp sample_account (Some ''code1'') sample_options,
          LogError (sample_error ''basket'' ''USAGE_ERROR''),
          LogViewEvent ''verification.success'',
          NotifierTrigger ''verification.success'',
          SetAccount (sample_account\<lparr>verified := True\<rparr>),
          LogError (sample_error ''auth'' ''UNEXPECTED_ERROR'')]
   \<and> brokerCalls (trace (snd (beforeRender
          (sample_env_rejecting (Rejected (sample_error ''basket'' ''USAGE_ERROR'')))
          (sample_view SIGN_UP)))) = []
   \<and> ctx_error (context' (sample_env_rejecting (Rejected (sample_error ''basket'' ''USAGE_ERROR'')))
        (snd (beforeRender (sample_env_rejecting (Rejected (sample_error ''basket'' ''USAGE_ERROR'')))
               (sample_view SIGN_UP))))
       = Some (sample_error ''auth'' ''UNEXPECTED_ERROR'')"
proof -
  have created: "MarketingEmailErrors_created (sample_error ''basket'' ''USAGE_ERROR'')"
    by (simp add: MarketingEmailErrors_created_def sample_error_def)
  have request:
    "requestCompleteSignUp (sample_env_rejecting (Rejected (sample_error ''basket'' ''USAGE_ERROR'')))
        (populateAccount (sample_env_rejecting (Rejected (sample_error ''basket'' ''USAGE_ERROR'')))
           (sample_view SIGN_UP))
       = (Rejected (sample_error ''basket'' ''USAGE_ERROR''), sample_requested SIGN_UP)"
    by (simp add: requestCompleteSignUp_def populateAccount_def sample_env_rejecting_def
        sample_env_def sample_view_def sample_requested_def sample_options_def signUpOptions_def
        getSearchParam_def getAccount_def perform_def or_null_def truthy_def sample_info_def
        Let_def)
  have continued:
    "promise_fail
       (notifyBrokerAndComplete
          (sample_env_rejecting (Rejected (sample_error ''basket'' ''USAGE_ERROR'')))
          (getAccount (sample_requested SIGN_UP))
          (logError (sample_error ''basket'' ''USAGE_ERROR'') (sample_requested SIGN_UP)))
       (\<lambda>err s. (Resolved, handleVerificationErrors err s))
     = (Resolved,
        (sample_requested SIGN_UP)
          \<lparr>model := \<lparr>model_type = SIGN_UP,
                      model_error = Some (sample_error ''auth'' ''UNEXPECTED_ERROR'')\<rparr>,
           trace := trace (sample_requested SIGN_UP) @
             [LogError (sample_error ''basket'' ''USAGE_ERROR''),
              LogViewEvent ''verification.success'',
              NotifierTrigger ''verification.success'',
              SetAccount (sample_account\<lparr>verified := True\<rparr>),
              LogError (sample_error ''auth'' ''UNEXPECTED_ERROR'')]\<rparr>)"
    by (simp add: notifyBrokerAndComplete_def promise_fail_def promise_then_def Let_def
        sample_env_rejecting_def sample_env_def getAccount_def logError_def perform_def
        sample_requested_def sample_view_def handleVerificationErrors_def AuthErrors_is_def
        sample_error_def)
  have run:
    "beforeRender (sample_env_rejecting (Rejected (sample_error ''basket'' ''USAGE_ERROR'')))
       (sample_view SIGN_UP)
     = (ReturnsPromise Resolved,
        (sample_requested SIGN_UP)
          \<lparr>model := \<lparr>model_type = SIGN_UP,
                      model_error = Some (sample_error ''auth'' ''UNEXPECTED_ERROR'')\<rparr>,
           trace := trace (sample_requested SIGN_UP) @
             [LogError (sample_error ''basket'' ''USAGE_ERROR''),
              LogViewEvent ''verification.success'',
              NotifierTrigger ''verification.success'',
              SetAccount (sample_account\<lparr>verified := True\<rparr>),
              LogError (sample_error ''auth'' ''UNEXPECTED_ERROR'')]\<rparr>)"
    unfolding beforeRender_absorbed [OF sample_valid request created]
    by (simp add: Let_def continued)
  have traced:
    "trace (snd (beforeRender (sample_env_rejecting (Rejected (sample_error ''basket'' ''USAGE_ERROR'')))
                   (sample_view SIGN_UP)))
       = [PopulateFromStringifiedResumeToken None,
          CompleteAccountSignUp sample_account (Some ''code1'') sample_options,
          LogError (sample_error ''basket'' ''USAGE_ERROR''),
          LogViewEvent ''verification.success'',
          NotifierTrigger ''verification.success'',
          SetAccount (sample_account\<lparr>verified := True\<rparr>),
          LogError (sample_error ''auth'' ''UNEXPECTED_ERROR'')]"
    by (simp add: run sample_requested_def)
  have silent: "brokerCalls (trace (snd (beforeRender
          (sample_env_rejecting (Rejected (sample_error ''basket'' ''USAGE_ERROR'')))
          (sample_view SIGN_UP)))) = []"
    by (simp add: traced)
  have shown:
    "ctx_error (context' (sample_env_rejecting (Rejected (sample_error ''basket'' ''USAGE_ERROR'')))
        (snd (beforeRender (sample_env_rejecting (Rejected (sample_error ''basket'' ''USAGE_ERROR'')))
               (sample_view SIGN_UP))))
       = Some (sample_error ''auth'' ''UNEXPECTED_ERROR'')"
    by (simp add: run context'_def)
  show ?thesis
    using sample_valid request created traced silent shown by simp
qed

text \<open>
  C4, amended. When the remote operation fails with an error of the marketing-email client,
  \<^verbatim>\<open>_logAndAbsorbMarketingClientErrors\<close> logs the error and returns, and completion
  goes on from there: the success event is logged and triggered and the account is handed
  to \<^verbatim>\<open>setAccount\<close>; once that resolves the broker method of the verification type
  is invoked; and once the broker resolves too, nothing but the trace and the account has
  changed, so the model's \<open>error\<close> and the link states that the context shows are the
  ones from before. An error that the marketing-email client did not create is thrown
  again as it is, with nothing logged.
\<close>

theorem logAndAbsorbMarketingClientErrors_completion:
  assumes "isValid (verificationInfo v)"
    and "requestCompleteSignUp e (populateAccount e v) = (Rejected err, s)"
    and "MarketingEmailErrors_created err"
  shows "logAndAbsorbMarketingClientErrors err s = (Resolved, logError err s)
       \<and> (\<exists>rest. trace (snd (beforeRender e v))
             = trace s @ [LogError err, LogViewEvent ''verification.success'',
                          NotifierTrigger ''verification.success'',
                          SetAccount (view_account s)] @ rest)
       \<and> (setAccount e (view_account s) = Resolved \<longrightarrow>
            brokerCalls (trace (snd (beforeRender e v)))
              = brokerCalls (trace v) @ [(getBrokerMethod v, view_account s)])
       \<and> (setAccount e (view_account s) = Resolved
            \<and> invokeBrokerMethod e (getBrokerMethod v) (view_account s) = Resolved \<longrightarrow>
            beforeRender e v =
              (ReturnsPromise Resolved,
               s\<lparr>trace := trace s @ [LogError err, LogViewEvent ''verification.success'',
                    NotifierTrigger ''verification.success'', SetAccount (view_account s),
                    InvokeBrokerMethod (getBrokerMethod v) (view_account s)]\<rparr>)
            \<and> ctx_error (context' e (snd (beforeRender e v))) = model_error (model v)
            \<and> verificationInfo (snd (beforeRender e v)) = verificationInfo v)
       \<and> (\<not> MarketingEmailErrors_created err' \<longrightarrow>
            logAndAbsorbMarketingClientErrors err' s' = (Rejected err', s'))"
proof -
  note same = requestCompleteSignUp_view [OF assms(2)]
  have run: "beforeRender e v =
     (let p = notifyBrokerAndComplete e (getAccount s) (logError err s);
          p' = promise_fail p (\<lambda>err s. (Resolved, handleVerificationErrors err s))
      in (ReturnsPromise (fst p'), snd p'))"
    using assms by (rule beforeRender_absorbed)
  have chosen: "getBrokerMethod (logError err s) = getBrokerMethod v"
    using same(4) by (simp add: getBrokerMethod_def logError_def perform_def)
  have absorbed: "logAndAbsorbMarketingClientErrors err s = (Resolved, logError err s)"
    using assms(3) by (simp add: logAndAbsorbMarketingClientErrors_def)
  have proceeds: "\<exists>rest. trace (snd (beforeRender e v))
             = trace s @ [LogError err, LogViewEvent ''verification.success'',
                          NotifierTrigger ''verification.success'',
                          SetAccount (view_account s)] @ rest"
    using notify_then_handle_trace [of e "getAccount s" "logError err s"]
    by (simp add: run Let_def getAccount_def logError_def perform_def)
  have notified: "brokerCalls (trace (snd (beforeRender e v)))
              = brokerCalls (trace v) @ [(getBrokerMethod v, view_account s)]"
    if "setAccount e (view_account s) = Resolved"
    using notify_then_handle_brokerCalls [of e "getAccount s" "logError err s"] that same(3) chosen
    by (simp add: run Let_def getAccount_def logError_def perform_def brokerCalls_append)
  have quiet: "beforeRender e v =
              (ReturnsPromise Resolved,
               s\<lparr>trace := trace s @ [LogError err, LogViewEvent ''verification.success'',
                    NotifierTrigger ''verification.success'', SetAccount (view_account s),
                    InvokeBrokerMethod (getBrokerMethod v) (view_account s)]\<rparr>)"
    if "setAccount e (view_account s) = Resolved"
      and "invokeBrokerMethod e (getBrokerMethod v) (view_account s) = Resolved"
    using notify_resolved [of e "getAccount s" "logError err s"] that chosen
    by (simp add: run Let_def getAccount_def logError_def perform_def)
  have rethrown: "logAndAbsorbMarketingClientErrors err' s' = (Rejected err', s')"
    if "\<not> MarketingEmailErrors_created err'"
    using that by (simp add: logAndAbsorbMarketingClientErrors_def)
  show ?thesis
    using absorbed proceeds notified quiet rethrown same(1,2)
    by (auto simp: context'_def)
qed

theorem logAndAbsorbMarketingClientErrors_completion_witness:
  "isValid (verificationInfo (sample_view SIGN_UP))
   \<and> requestCompleteSignUp (sample_env (Rejected (sample_error ''basket'' ''USAGE_ERROR'')))
        (populateAccount (sample_env (Rejected (sample_error ''basket'' ''USAGE_ERROR''))) (sample_view SIGN_UP))
       = (Rejected (sample_error ''basket'' ''USAGE_ERROR''), sample_requested SIGN_UP)
   \<and> MarketingEmailErrors_created (sample_error ''basket'' ''USAGE_ERROR'')
   \<and> beforeRender (sample_env (Rejected (sample_error ''basket'' ''USAGE_ERROR''))) (sample_view SIGN_UP)
       = (ReturnsPromise Resolved,
          (sample_requested SIGN_UP)
            \<lparr>trace := trace (sample_requested SIGN_UP) @
               [LogError (sample_error ''basket'' ''USAGE_ERROR''),
                LogViewEvent ''verification.success'',
                NotifierTrigger ''verification.success'',
                SetAccount (sample_account\<lparr>verified := True\<rparr>),
                InvokeBrokerMethod (Some ''afterCompleteSignUp'') (sample_account\<lparr>verified := True\<rparr>)]\<rparr>)
   \<and> \<not> MarketingEmailErrors_created (sample_error ''auth'' ''UNEXPECTED_ERROR'')
   \<and> logAndAbsorbMarketingClientErrors (sample_error ''auth'' ''UNEXPECTED_ERROR'') (sample_view SIGN_UP)
       = (Rejected (sample_error ''auth'' ''UNEXPECTED_ERROR''), sample_view SIGN_UP)"
proof -
  have created: "MarketingEmailErrors_created (sample_error ''basket'' ''USAGE_ERROR'')"
    by (simp add: MarketingEmailErrors_created_def sample_error_def)
  have other: "\<not> MarketingEmailErrors_created (sample_error ''auth'' ''UNEXPECTED_ERROR'')"
    by (simp add: MarketingEmailErrors_created_def sample_error_def)
  have chosen: "getBrokerMethod (sample_view SIGN_UP) = Some ''afterCompleteSignUp''"
    by (simp add: getBrokerMethod_def BROKER_METHODS_def sample_view_def)
  have updated: "view_account (sample_requested SIGN_UP) = sample_account\<lparr>verified := True\<rparr>"
    by (simp add: sample_requested_def)
  have resolves: "setAccount (sample_env x) a = Resolved"
    "invokeBrokerMethod (sample_env x) m a = Resolved" for x m a
    by (simp_all add: sample_env_def)
  from logAndAbsorbMarketingClientErrors_completion
         [OF sample_valid sample_request created,
          where err' = "sample_error ''auth'' ''UNEXPECTED_ERROR''" and s' = "sample_view SIGN_UP"]
  show ?thesis
    using created other sample_valid sample_request
    by (simp add: chosen updated resolves)
qed

text \<open>
  C7, as stated, is false: a failure of the remote operation with an error of the
  marketing-email client does not go to the error handling. The success event is logged,
  the account is persisted, the broker is notified, and \<^verbatim>\<open>_handleVerificationErrors\<close>
  is never entered.
\<close>

theorem beforeRender_failure_counterexample:
  "isValid (verificationInfo (sample_view SIGN_UP))
   \<and> requestCompleteSignUp (sample_env (Rejected (sample_error ''basket'' ''USAGE_ERROR'')))
        (populateAccount (sample_env (Rejected (sample_error ''basket'' ''USAGE_ERROR''))) (sample_view SIGN_UP))
       = (Rejected (sample_error ''basket'' ''USAGE_ERROR''), sample_requested SIGN_UP)
   \<and> trace (snd (beforeRender (sample_env (Rejected (sample_error ''basket'' ''USAGE_ERROR'')))
                   (sample_view SIGN_UP)))
       = [PopulateFromStringifiedResumeToken None,
          CompleteAccountSignUp sample_account (Some ''code1'') sample_options,
          LogError (sample_error ''basket'' ''USAGE_ERROR''),
          LogViewEvent ''verification.success'',
          NotifierTrigger ''verification.success'',
          SetAccount (sample_account\<lparr>verified := True\<rparr>),
          InvokeBrokerMethod (Some ''afterCompleteSignUp'') (sample_account\<lparr>verified := True\<rparr>)]
   \<and> snd (beforeRender (sample_env (Rejected (sample_error ''basket'' ''USAGE_ERROR'')))
             (sample_view SIGN_UP))
       \<noteq> handleVerificationErrors (sample_error ''basket'' ''USAGE_ERROR'') (sample_requested SIGN_UP)"
proof -
  have created: "MarketingEmailErrors_created (sample_error ''basket'' ''USAGE_ERROR'')"
    by (simp add: MarketingEmailErrors_created_def sample_error_def)
  have resolves: "setAccount (sample_env x) a = Resolved"
    "invokeBrokerMethod (sample_env x) m a = Resolved" for x m a
    by (simp_all add: sample_env_def)
  have run: "beforeRender (sample_env (Rejected (sample_error ''basket'' ''USAGE_ERROR''))) (sample_view SIGN_UP)
      = (ReturnsPromise Resolved,
         (sample_requested SIGN_UP)
            \<lparr>trace := trace (sample_requested SIGN_UP) @
               [LogError (sample_error ''basket'' ''USAGE_ERROR''),
                LogViewEvent ''verification.success'',
                NotifierTrigger ''verification.success'',
                SetAccount (sample_account\<lparr>verified := True\<rparr>),
                InvokeBrokerMethod (Some ''afterCompleteSignUp'') (sample_account\<lparr>verified := True\<rparr>)]\<rparr>)"
  proof -
    have continued:
      "promise_fail
         (notifyBrokerAndComplete (sample_env (Rejected (sample_error ''basket'' ''USAGE_ERROR'')))
            (getAccount (sample_requested SIGN_UP))
            (logError (sample_error ''basket'' ''USAGE_ERROR'') (sample_requested SIGN_UP)))
         (\<lambda>err s. (Resolved, handleVerificationErrors err s))
       = (Resolved,
          (sample_requested SIGN_UP)
            \<lparr>trace := trace (sample_requested SIGN_UP) @
               [LogError (sample_error ''basket'' ''USAGE_ERROR''),
                LogViewEvent ''verification.success'',
                NotifierTrigger ''verification.success'',
                SetAccount (sample_account\<lparr>verified := True\<rparr>),
                InvokeBrokerMethod (Some ''afterCompleteSignUp'') (sample_account\<lparr>verified := True\<rparr>)]\<rparr>)"
      by (simp add: notifyBrokerAndComplete_def promise_fail_def promise_then_def Let_def
          resolves getAccount_def logError_def perform_def sample_requested_def
          getBrokerMethod_def BROKER_METHODS_def sample_view_def)
    show ?thesis
      unfolding beforeRender_absorbed [OF sample_valid sample_request created]
      by (simp add: Let_def continued)
  qed
  have differs: "trace (handleVerificationErrors (sample_error ''basket'' ''USAGE_ERROR'')
                   (sample_requested SIGN_UP))
      = [PopulateFromStringifiedResumeToken None,
         CompleteAccountSignUp sample_account (Some ''code1'') sample_options,
         LogError (sample_error ''basket'' ''USAGE_ERROR'')]"
    by (simp add: handleVerificationErrors_def AuthErrors_is_def sample_error_def
        logError_def perform_def sample_requested_def)
  have traced: "trace (snd (beforeRender (sample_env (Rejected (sample_error ''basket'' ''USAGE_ERROR'')))
                   (sample_view SIGN_UP)))
       = [PopulateFromStringifiedResumeToken None,
          CompleteAccountSignUp sample_account (Some ''code1'') sample_options,
          LogError (sample_error ''basket'' ''USAGE_ERROR''),
          LogViewEvent ''verification.success'',
          NotifierTrigger ''verification.success'',
          SetAccount (sample_account\<lparr>verified := True\<rparr>),
          InvokeBrokerMethod (Some ''afterCompleteSignUp'') (sample_account\<lparr>verified := True\<rparr>)]"
    by (simp add: run sample_requested_def)
  have "snd (beforeRender (sample_env (Rejected (sample_error ''basket'' ''USAGE_ERROR'')))
             (sample_view SIGN_UP))
       \<noteq> handleVerificationErrors (sample_error ''basket'' ''USAGE_ERROR'') (sample_requested SIGN_UP)"
  proof
    assume "snd (beforeRender (sample_env (Rejected (sample_error ''basket'' ''USAGE_ERROR'')))
             (sample_view SIGN_UP))
       = handleVerificationErrors (sample_error ''basket'' ''USAGE_ERROR'') (sample_requested SIGN_UP)"
    then have "trace (snd (beforeRender (sample_env (Rejected (sample_error ''basket'' ''USAGE_ERROR'')))
             (sample_view SIGN_UP)))
       = trace (handleVerificationErrors (sample_error ''basket'' ''USAGE_ERROR'') (sample_requested SIGN_UP))"
      by simp
    then show False by (simp add: traced differs)
  qed
  then show ?thesis
    using sample_valid sample_request traced by simp
qed

text \<open>
  C7, amended. When the remote operation succeeds, the view logs and triggers
  \<open>verification.success\<close> and hands the account, as the operation left it, to
  \<^verbatim>\<open>setAccount\<close>; once that resolves, the one broker method it invokes is the one that
  \<^verbatim>\<open>BROKER_METHODS\<close> gives for the verification type: \<open>afterCompleteSignUp\<close> for
  SIGN_UP, \<open>afterCompleteSignIn\<close> for SIGN_IN, \<open>afterCompleteAddSecondaryEmail\<close> for
  SECONDARY_EMAIL_VERIFIED. When the remote operation fails with an error that the
  marketing-email client did not create, none of this happens and the error goes to
  \<^verbatim>\<open>_handleVerificationErrors\<close>.
\<close>

theorem beforeRender_completion:
  assumes "isValid (verificationInfo v)"
    and "requestCompleteSignUp e (populateAccount e v) = (settled, s)"
  shows "(settled = Resolved \<longrightarrow>
            (\<exists>rest. trace (snd (beforeRender e v))
               = trace s @ [LogViewEvent ''verification.success'',
                            NotifierTrigger ''verification.success'',
                            SetAccount (view_account s)] @ rest)
          \<and> (setAccount e (view_account s) = Resolved \<longrightarrow>
               brokerCalls (trace (snd (beforeRender e v)))
                 = brokerCalls (trace v) @ [(getBrokerMethod v, view_account s)]))
       \<and> (model_type (model v) = SIGN_UP \<longrightarrow> getBrokerMethod v = Some ''afterCompleteSignUp'')
       \<and> (model_type (model v) = SIGN_IN \<longrightarrow> getBrokerMethod v = Some ''afterCompleteSignIn'')
       \<and> (model_type (model v) = SECONDARY_EMAIL_VERIFIED \<longrightarrow>
            getBrokerMethod v = Some ''afterCompleteAddSecondaryEmail'')
       \<and> (\<forall>err. settled = Rejected err \<and> \<not> MarketingEmailErrors_created err \<longrightarrow>
            beforeRender e v = (ReturnsPromise Resolved, handleVerificationErrors err s)
            \<and> brokerCalls (trace (snd (beforeRender e v))) = brokerCalls (trace v))"
proof -
  have success: "\<exists>rest. trace (snd (beforeRender e v))
               = trace s @ [LogViewEvent ''verification.success'',
                            NotifierTrigger ''verification.success'',
                            SetAccount (view_account s)] @ rest"
    if "settled = Resolved"
    using notify_then_handle_trace [of e "getAccount s" s] assms that
    by (simp add: beforeRender_resolved Let_def getAccount_def)
  have broker: "brokerCalls (trace (snd (beforeRender e v)))
                 = brokerCalls (trace v) @ [(getBrokerMethod v, view_account s)]"
    if "settled = Resolved" and "setAccount e (view_account s) = Resolved"
    using notify_then_handle_brokerCalls [of e "getAccount s" s] assms that
      requestCompleteSignUp_view(3,4) [OF assms(2)]
    by (simp add: beforeRender_resolved Let_def getAccount_def)
  have methods:
    "model_type (model v) = SIGN_UP \<longrightarrow> getBrokerMethod v = Some ''afterCompleteSignUp''"
    "model_type (model v) = SIGN_IN \<longrightarrow> getBrokerMethod v = Some ''afterCompleteSignIn''"
    "model_type (model v) = SECONDARY_EMAIL_VERIFIED \<longrightarrow>
       getBrokerMethod v = Some ''afterCompleteAddSecondaryEmail''"
    by (simp_all add: getBrokerMethod_def BROKER_METHODS_def)
  have failure: "beforeRender e v = (ReturnsPromise Resolved, handleVerificationErrors err s)
            \<and> brokerCalls (trace (snd (beforeRender e v))) = brokerCalls (trace v)"
    if "settled = Rejected err" and "\<not> MarketingEmailErrors_created err" for err
    using assms that requestCompleteSignUp_view(3) [OF assms(2)]
    by (simp add: beforeRender_def promise_fail_def promise_then_def Let_def
        logAndAbsorbMarketingClientErrors_def handleVerificationErrors_brokerCalls)
  show ?thesis
    using success broker methods failure by blast
qed

theorem beforeRender_completion_witness:
  "isValid (verificationInfo (sample_view SIGN_IN))
   \<and> requestCompleteSignUp (sample_env Resolved) (populateAccount (sample_env Resolved) (sample_view SIGN_IN))
       = (Resolved, sample_requested SIGN_IN)
   \<and> setAccount (sample_env Resolved) (view_account (sample_requested SIGN_IN)) = Resolved
   \<and> brokerCalls (trace (snd (beforeRender (sample_env Resolved) (sample_view SIGN_IN))))
       = [(Some ''afterCompleteSignIn'', sample_account\<lparr>verified := True\<rparr>)]
   \<and> requestCompleteSignUp (sample_env (Rejected (sample_error ''auth'' ''UNKNOWN_ACCOUNT'')))
        (populateAccount (sample_env (Rejected (sample_error ''auth'' ''UNKNOWN_ACCOUNT''))) (sample_view SIGN_IN))
       = (Rejected (sample_error ''auth'' ''UNKNOWN_ACCOUNT''), sample_requested SIGN_IN)
   \<and> \<not> MarketingEmailErrors_created (sample_error ''auth'' ''UNKNOWN_ACCOUNT'')
   \<and> beforeRender (sample_env (Rejected (sample_error ''auth'' ''UNKNOWN_ACCOUNT''))) (sample_view SIGN_IN)
       = (ReturnsPromise Resolved,
          handleVerificationErrors (sample_error ''auth'' ''UNKNOWN_ACCOUNT'') (sample_requested SIGN_IN))"
proof -
  have other: "\<not> MarketingEmailErrors_created (sample_error ''auth'' ''UNKNOWN_ACCOUNT'')"
    by (simp add: MarketingEmailErrors_created_def sample_error_def)
  have resolves: "setAccount (sample_env x) a = Resolved" for x a
    by (simp add: sample_env_def)
  have reason: "model_type (model (sample_view SIGN_IN)) = SIGN_IN"
    and fresh: "brokerCalls (trace (sample_view SIGN_IN)) = []"
    and updated: "view_account (sample_requested SIGN_IN) = sample_account\<lparr>verified := True\<rparr>"
    by (simp_all add: sample_view_def sample_requested_def)
  from beforeRender_completion [OF sample_valid sample_request, of Resolved SIGN_IN]
    beforeRender_completion [OF sample_valid sample_request,
      of "Rejected (sample_error ''auth'' ''UNKNOWN_ACCOUNT'')" SIGN_IN]
  show ?thesis
    using other sample_valid sample_request
    by (simp add: resolves reason fresh updated)
qed

section \<open>The rendering context\<close>

text \<open>
  C6. \<open>canResend\<close> in the rendering context holds exactly when the account that the
  user model has for the cached email has a session token and the verification reason is
  sign-up. The link states that the context shows are the validity states of the
  verification info: two views with the same validity states show the same link states,
  and if \<^verbatim>\<open>_canResend\<close> answers the same for both, their contexts differ at most in
  the error.
\<close>

theorem context_canResend:
  "(ctx_canResend (context' e v) \<longleftrightarrow>
      truthy (sessionToken (getAccountByEmail e (view_email v))) \<and> model_type (model v) = SIGN_UP)
   \<and> ctx_canResend (context' e v) = canResend e v
   \<and> ctx_isLinkDamaged (context' e v) = (\<not> isValid (verificationInfo v))
   \<and> ctx_isLinkExpired (context' e v) = isExpired (verificationInfo v)
   \<and> ctx_isLinkUsed (context' e v) = isUsed (verificationInfo v)
   \<and> (isValid (verificationInfo v) = isValid (verificationInfo v')
        \<and> isExpired (verificationInfo v) = isExpired (verificationInfo v')
        \<and> isUsed (verificationInfo v) = isUsed (verificationInfo v') \<longrightarrow>
        ctx_isLinkDamaged (context' e v) = ctx_isLinkDamaged (context' e' v')
        \<and> ctx_isLinkExpired (context' e v) = ctx_isLinkExpired (context' e' v')
        \<and> ctx_isLinkUsed (context' e v) = ctx_isLinkUsed (context' e' v')
        \<and> (canResend e v = canResend e' v' \<longrightarrow>
             (context' e v)\<lparr>ctx_error := None\<rparr> = (context' e' v')\<lparr>ctx_error := None\<rparr>))"
  by (simp add: context'_def canResend_def hasResendSessionToken_def isSignUp_def)

theorem context_canResend_witness:
  "isValid (verificationInfo (sample_view SIGN_UP)) = isValid (verificationInfo (sample_view SIGN_IN))
   \<and> isExpired (verificationInfo (sample_view SIGN_UP)) = isExpired (verificationInfo (sample_view SIGN_IN))
   \<and> isUsed (verificationInfo (sample_view SIGN_UP)) = isUsed (verificationInfo (sample_view SIGN_IN))
   \<and> ctx_canResend (context' (sample_env Resolved) (sample_view SIGN_UP))
   \<and> \<not> ctx_canResend (context' (sample_env Resolved) (sample_view SIGN_IN))
   \<and> ctx_isLinkDamaged (context' (sample_env Resolved) (sample_view SIGN_UP))
     = ctx_isLinkDamaged (context' (sample_env Resolved) (sample_view SIGN_IN))
   \<and> canResend (sample_env Resolved) (sample_view SIGN_IN)
     = canResend (sample_env Resolved) (sample_view OTHER_REASON)
   \<and> (context' (sample_env Resolved) (sample_view SIGN_IN))\<lparr>ctx_error := None\<rparr>
     = (context' (sample_env Resolved) (sample_view OTHER_REASON))\<lparr>ctx_error := None\<rparr>"
proof -
  have token:
    "truthy (sessionToken (getAccountByEmail (sample_env Resolved) (view_email (sample_view r))))" for r
    by (simp add: truthy_def sample_env_def sample_view_def sample_account_def)
  have reason: "model_type (model (sample_view r)) = r" for r
    by (simp add: sample_view_def)
  have info: "verificationInfo (sample_view r) = sample_info" for r
    by (simp add: sample_view_def)
  from context_canResend [of "sample_env Resolved" "sample_view SIGN_UP"
         "sample_view SIGN_IN" "sample_env Resolved"]
    context_canResend [of "sample_env Resolved" "sample_view SIGN_IN"
         "sample_view OTHER_REASON" "sample_env Resolved"]
  show ?thesis
    by (simp add: token reason info canResend_def hasResendSessionToken_def isSignUp_def)
qed

section \<open>Commands sent to the browser\<close>

text \<open>
  C8. On the window of the sender, \<^verbatim>\<open>send\<close> dispatches one event: a custom event of
  type \<open>FirefoxAccountsCommand\<close> whose detail holds \<open>bubbles: true\<close>, the command
  and the data. The promise it returns resolves.
\<close>

theorem send_dispatches_command:
  assumes "sender_window s = Some win"
  shows "send s cmd dat messageId =
           Inr (s\<lparr>sender_window := Some (win\<lparr>dispatched := dispatched win @
                  [\<lparr>event_type = ''FirefoxAccountsCommand'',
                    detail = \<lparr>bubbles = True, command = cmd, data = dat\<rparr>\<rparr>]\<rparr>)\<rparr>)"
  using assms
  by (simp add: send_def dispatchCommand_def createEvent_def dispatchEvent_def)

theorem send_dispatches_command_witness:
  "sender_window (initialize (Some \<lparr>opt_window = Some sample_window\<rparr>) \<lparr>sender_window = None\<rparr>)
     = Some sample_window
   \<and> send (initialize (Some \<lparr>opt_window = Some sample_window\<rparr>) \<lparr>sender_window = None\<rparr>)
        ''login'' (7::nat) (Some ''message1'')
     = Inr \<lparr>sender_window = Some \<lparr>dispatched =
              [\<lparr>event_type = ''FirefoxAccountsCommand'',
                detail = \<lparr>bubbles = True, command = ''login'', data = 7\<rparr>\<rparr>]\<rparr>\<rparr>"
proof -
  have window: "sender_window (initialize (Some \<lparr>opt_window = Some sample_window\<rparr>) \<lparr>sender_window = None\<rparr>)
     = Some sample_window"
    by (simp add: initialize_def)
  from send_dispatches_command [OF window, of "''login''" 7 "Some ''message1''"]
  show ?thesis
    by (simp add: window initialize_def sample_window_def)
qed

text \<open>
  C10. \<^verbatim>\<open>send\<close> does not depend on its message id: with the same sender, command and
  data, any two message ids give the same result, the same event dispatched on the same
  window. \<^verbatim>\<open>createEvent\<close> has no parameter for the message id.
\<close>

theorem send_ignores_messageId:
  "send s cmd dat messageId = send s cmd dat messageId'"
  by (simp add: send_def dispatchCommand_def)

end
